theory Spec2Isabelle
  imports Main
begin

section \<open>Run-time model of the fold engine (compress.hpp)\<close>

text \<open>
  A call of a user-supplied binary callable may have side effects. The world the callable
  can read and write is passed explicitly: an operation takes the state, the next
  argument and the world, and returns its result with the world after the call. The
  variadic argument pack of a call is a list. The state may change its C++ type from step
  to step, so the values of all argument and result types live in the one type \<open>'v\<close>.
  Arguments and results are values here: this is the fold of an operation that returns
  by value. What becomes of references that an operation returns is the matter of the
  model with lifetimes further down.
\<close>

type_synonym ('v, 'w) operation = "'v \<Rightarrow> 'v \<Rightarrow> 'w \<Rightarrow> 'v \<times> 'w"

datatype error = No_matching_overload | Dangling_reference

text \<open>
  \<^verbatim>\<open>detail::v_fold\<close>. The list holds the arguments after \<^verbatim>\<open>f\<close>. The first overload
  takes \<^verbatim>\<open>(f, state, x, xs...)\<close>, evaluates \<^verbatim>\<open>f(state, x)\<close> and calls itself with the
  result in the state slot. The second overload takes \<^verbatim>\<open>(f, state)\<close> and returns the state
  without touching \<^verbatim>\<open>f\<close>. No overload accepts \<^verbatim>\<open>f\<close> alone.
\<close>

fun v_fold :: "('v, 'w) operation \<Rightarrow> 'v list \<Rightarrow> 'w \<Rightarrow> error + 'v \<times> 'w" where
  "v_fold f (state # x # xs) w = (case f state x w of (state', w') \<Rightarrow> v_fold f (state' # xs) w')"
| "v_fold f [state] w = Inr (state, w)"
| "v_fold f [] w = Inl No_matching_overload"

text \<open>\<^verbatim>\<open>compress_binary_adaptor_base::apply\<close>: \<^verbatim>\<open>v_fold()(f, move(state), xs...)\<close>.\<close>

definition compress_binary_apply :: "('v, 'w) operation \<Rightarrow> 'v \<Rightarrow> 'v list \<Rightarrow> 'w \<Rightarrow> error + 'v \<times> 'w" where
  "compress_binary_apply f state xs w = v_fold f (state # xs) w"

text \<open>\<^verbatim>\<open>compress_unary_adaptor_base::apply\<close>: \<^verbatim>\<open>v_fold()(f, xs...)\<close>.\<close>

definition compress_unary_apply :: "('v, 'w) operation \<Rightarrow> 'v list \<Rightarrow> 'w \<Rightarrow> error + 'v \<times> 'w" where
  "compress_unary_apply f xs w = v_fold f xs w"

text \<open>
  Modelled from the spec: the adaptor builder (\<^verbatim>\<open>binary_adaptor_builder\<close>,
  \<^verbatim>\<open>fit/detail/builder/binary.hpp\<close>) is not among the sources. By the spec the
  binary-seeded adaptor is constructed from (operation, initial state) and a call runs the
  explicit-seed fold; the unary adaptor is constructed from the operation only and a call
  runs the self-seeding fold. The stored seed is handed to \<^verbatim>\<open>apply\<close> by value on each call.
\<close>

datatype ('v, 'w) compress_adaptor =
  Compress_binary "('v, 'w) operation" 'v
| Compress_unary "('v, 'w) operation"

text \<open>
  Modelled from the spec: \<^verbatim>\<open>compress(f)\<close> and \<^verbatim>\<open>compress(f, z)\<close>, which the absent builder
  declares, construct the unary adaptor from the operation and the binary-seeded adaptor
  from operation and seed.
\<close>

definition compress :: "('v, 'w) operation \<Rightarrow> ('v, 'w) compress_adaptor" where
  "compress f = Compress_unary f"

definition compress_seeded :: "('v, 'w) operation \<Rightarrow> 'v \<Rightarrow> ('v, 'w) compress_adaptor" where
  "compress_seeded f z = Compress_binary f z"

text \<open>
  Modelled from the spec: the call operator of the adaptor, which the absent builder
  declares, runs the \<^verbatim>\<open>apply\<close> of its flavor on the stored operation, the stored seed if
  there is one, and the arguments of the call.
\<close>

fun compress_call :: "('v, 'w) compress_adaptor \<Rightarrow> 'v list \<Rightarrow> 'w \<Rightarrow> error + 'v \<times> 'w" where
  "compress_call (Compress_binary f z) xs w = compress_binary_apply f z xs w"
| "compress_call (Compress_unary f) xs w = compress_unary_apply f xs w"

subsection \<open>Operations used to observe calls\<close>

text \<open>A callable without side effects leaves the world as it is.\<close>

definition pure_op :: "('v \<Rightarrow> 'v \<Rightarrow> 'v) \<Rightarrow> ('v, 'w) operation" where
  "pure_op g s x w = (g s x, w)"

text \<open>
  An operation instrumented with a call counter, and one instrumented with a log of its
  calls (state, argument, result) in the order they happen.
\<close>

definition counted :: "('v, 'w) operation \<Rightarrow> ('v, 'w \<times> nat) operation" where
  "counted f s x = (\<lambda>(w, n). case f s x w of (r, w') \<Rightarrow> (r, (w', Suc n)))"


text \<open>
  The left fold in the words of the spec: with no argument left the result is the
  current state, and the operation is not called; with state \<open>s\<close> and arguments
  \<open>x, xs...\<close> it computes \<open>s' = f(s, x)\<close> and goes on with \<open>s'\<close> and \<open>xs...\<close>.
\<close>

fun left_fold :: "('v, 'w) operation \<Rightarrow> 'v \<Rightarrow> 'v list \<Rightarrow> 'w \<Rightarrow> 'v \<times> 'w" where
  "left_fold f s [] w = (s, w)"
| "left_fold f s (x # xs) w = (case f s x w of (s', w') \<Rightarrow> left_fold f s' xs w')"


text \<open>The \<^verbatim>\<open>max_f\<close> of the documentation: \<^verbatim>\<open>return x > y ? x : y\<close>.\<close>

definition max_f :: "int \<Rightarrow> int \<Rightarrow> int" where
  "max_f x y = (if x > y then x else y)"

text \<open>The addition of the scenario \<^verbatim>\<open>compress(add, 0)(1, 2, 3)\<close>.\<close>

definition add :: "int \<Rightarrow> int \<Rightarrow> int" where
  "add x y = x + y"

section \<open>Run-time model of the fold engine with references and lifetimes\<close>

text \<open>
  Objects live in a store, one location each; a location whose object has been destroyed
  holds \<open>None\<close>. A new object takes the next location.
\<close>

type_synonym loc = nat

type_synonym 'v store = "'v option list"

definition alloc :: "'v \<Rightarrow> 'v store \<Rightarrow> loc \<times> 'v store" where
  "alloc v s = (length s, s @ [Some v])"

definition destroy :: "loc \<Rightarrow> 'v store \<Rightarrow> 'v store" where
  "destroy l s = s[l := None]"

definition read :: "loc \<Rightarrow> 'v store \<Rightarrow> 'v option" where
  "read l s = (if l < length s then s ! l else None)"

text \<open>
  Every parameter of \<^verbatim>\<open>v_fold\<close> after \<^verbatim>\<open>f\<close> is a forwarding reference, so an argument
  reaches it as a reference to an object together with its value category: an lvalue
  deduces \<^verbatim>\<open>State\<close> as \<^verbatim>\<open>U&\<close>, an rvalue as \<^verbatim>\<open>U\<close>. A call of the operation yields a
  prvalue or again a reference.
\<close>

datatype reference = Lvalue loc | Xvalue loc

fun referent :: "reference \<Rightarrow> loc" where
  "referent (Lvalue l) = l"
| "referent (Xvalue l) = l"

datatype 'v result = Prvalue 'v | Glvalue reference

type_synonym 'v ref_operation = "reference \<Rightarrow> reference \<Rightarrow> 'v store \<Rightarrow> error + 'v result"

text \<open>
  \<^verbatim>\<open>detail::v_fold\<close> on references. First overload,
  \<^verbatim>\<open>return (*this)(f, f(FIT_FORWARD(State)(state), FIT_FORWARD(T)(x)), FIT_FORWARD(Ts)(xs)...)\<close>:
  a prvalue result of \<^verbatim>\<open>f\<close> is materialised as a temporary that the state parameter of
  the inner call binds to as an rvalue, and that is destroyed at the end of the return
  statement, after the inner call has returned; a reference result is passed on as it
  is. What the inner call returns is returned. Second overload,
  \<^verbatim>\<open>constexpr State operator()(const F&, State&& state)\<close>: for an lvalue \<^verbatim>\<open>State\<close> is
  \<^verbatim>\<open>U&\<close> and the reference is returned; for an rvalue \<^verbatim>\<open>State\<close> is \<^verbatim>\<open>U\<close> and the value
  of the object is returned, which needs the object alive.
\<close>

fun v_fold_ref :: "'v ref_operation \<Rightarrow> reference list \<Rightarrow> 'v store \<Rightarrow> error + 'v result \<times> 'v store" where
  "v_fold_ref f (state # x # xs) s =
     (case f state x s of
        Inl e \<Rightarrow> Inl e
      | Inr (Prvalue v) \<Rightarrow>
          (case alloc v s of
             (t, s1) \<Rightarrow>
               (case v_fold_ref f (Xvalue t # xs) s1 of
                  Inl e \<Rightarrow> Inl e
                | Inr (r, s2) \<Rightarrow> Inr (r, destroy t s2)))
      | Inr (Glvalue r) \<Rightarrow> v_fold_ref f (r # xs) s)"
| "v_fold_ref f [Lvalue l] s = Inr (Glvalue (Lvalue l), s)"
| "v_fold_ref f [Xvalue l] s =
     (case read l s of None \<Rightarrow> Inl Dangling_reference | Some v \<Rightarrow> Inr (Prvalue v, s))"
| "v_fold_ref f [] s = Inl No_matching_overload"

text \<open>
  \<^verbatim>\<open>compress_binary_adaptor_base::apply\<close>,
  \<^verbatim>\<open>operator()(const F& f, State state, Ts&&... xs) const\<close>: the parameter \<^verbatim>\<open>state\<close> is an
  object of its own, initialised with the seed; the body passes \<^verbatim>\<open>fit::move(state)\<close>, an
  rvalue, to \<^verbatim>\<open>v_fold\<close>; the declared result is the result type of that call, so what
  \<^verbatim>\<open>v_fold\<close> returns is returned as it is, reference or value; the parameter is destroyed
  when the function returns.
\<close>

definition compress_binary_apply_ref :: "'v ref_operation \<Rightarrow> 'v \<Rightarrow> reference list \<Rightarrow> 'v store \<Rightarrow> error + 'v result \<times> 'v store" where
  "compress_binary_apply_ref f seed xs s =
     (case alloc seed s of
        (state, s1) \<Rightarrow>
          (case v_fold_ref f (Xvalue state # xs) s1 of
             Inl e \<Rightarrow> Inl e
           | Inr (r, s2) \<Rightarrow> Inr (r, destroy state s2)))"

text \<open>
  \<^verbatim>\<open>compress_unary_adaptor_base::apply\<close>, \<^verbatim>\<open>operator()(const F& f, Ts&&... xs) const\<close>: the
  arguments are forwarded to \<^verbatim>\<open>v_fold\<close>; no object of its own.
\<close>

definition compress_unary_apply_ref :: "'v ref_operation \<Rightarrow> reference list \<Rightarrow> 'v store \<Rightarrow> error + 'v result \<times> 'v store" where
  "compress_unary_apply_ref f xs s = v_fold_ref f xs s"

text \<open>
  What the caller reads from the outcome of a call: the value returned, or the object a
  returned reference refers to, in the store the call has left.
\<close>

definition result_value :: "error + 'v result \<times> 'v store \<Rightarrow> error + 'v" where
  "result_value outcome =
     (case outcome of
        Inl e \<Rightarrow> Inl e
      | Inr (Prvalue v, s) \<Rightarrow> Inr v
      | Inr (Glvalue r, s) \<Rightarrow>
          (case read (referent r) s of None \<Rightarrow> Inl Dangling_reference | Some v \<Rightarrow> Inr v))"

text \<open>
  Two kinds of operation. One of the shape of \<^verbatim>\<open>std::max\<close>,
  \<^verbatim>\<open>const T& operator()(const T& a, const T& b) const { return a < b ? b : a; }\<close>, which
  returns a reference to one of its operands. And one that takes its operands by value
  and returns by value, as the \<^verbatim>\<open>max_f\<close> of the documentation does.
\<close>

definition max_ref :: "int ref_operation" where
  "max_ref a b s =
     (case (read (referent a) s, read (referent b) s) of
        (Some x, Some y) \<Rightarrow> Inr (Glvalue (Lvalue (referent (if x < y then b else a))))
      | _ \<Rightarrow> Inl Dangling_reference)"

definition by_value :: "('v \<Rightarrow> 'v \<Rightarrow> 'v) \<Rightarrow> 'v ref_operation" where
  "by_value g a b s =
     (case (read (referent a) s, read (referent b) s) of
        (Some x, Some y) \<Rightarrow> Inr (Prvalue (g x y))
      | _ \<Rightarrow> Inl Dangling_reference)"

section \<open>Run-time model of the decorator (decorate.hpp)\<close>

text \<open>
  Modelled from the spec: \<^verbatim>\<open>compressed_pair\<close> (\<^verbatim>\<open>fit/detail/compressed_pair.hpp\<close>) is not
  among the sources. By the spec the pair storage keeps two values together with
  independent access to each, its layout being of no consequence for behaviour.
\<close>

record ('a, 'b) compressed_pair =
  first :: 'a
  second :: 'b

text \<open>
  Modelled from the spec: \<^verbatim>\<open>callable_base\<close> is not among the sources. By the spec the
  callable wrapper gives any invocable value a uniform calling convention; a call of the
  wrapper is a call of the value.
\<close>

definition callable_base :: "'f \<Rightarrow> 'f" where
  "callable_base f = f"

text \<open>
  A decorator operation is called with the data, the target callable and the trailing
  arguments, and may have side effects on the world. It receives data and target by
  reference to const: it reads them and cannot change what the caller stores.
\<close>

type_synonym ('t, 'f, 'a, 'r, 'w) decorator = "'t \<Rightarrow> 'f \<Rightarrow> 'a list \<Rightarrow> 'w \<Rightarrow> 'r \<times> 'w"

text \<open>
  \<^verbatim>\<open>decorator_invoke<D, T, F>\<close> derives from \<^verbatim>\<open>compressed_pair<compressed_pair<D, T>, F>\<close>
  and \<^verbatim>\<open>decoration<D, T>\<close> from \<^verbatim>\<open>compressed_pair<D, T>\<close>. The accessors take the arguments
  of the call and hand them on to the accessors of the pair, which do not look at them.
\<close>

type_synonym ('d, 't) decoration = "('d, 't) compressed_pair"

type_synonym ('d, 't, 'f) decorator_invoke = "(('d, 't) compressed_pair, 'f) compressed_pair"

definition decorator_invoke_get_pair :: "('d, 't, 'f) decorator_invoke \<Rightarrow> 'a list \<Rightarrow> ('d, 't) compressed_pair" where
  "decorator_invoke_get_pair self xs = first self"

definition decorator_invoke_base_function :: "('d, 't, 'f) decorator_invoke \<Rightarrow> 'a list \<Rightarrow> 'f" where
  "decorator_invoke_base_function self xs = second self"

definition decorator_invoke_get_decorator :: "('d, 't, 'f) decorator_invoke \<Rightarrow> 'a list \<Rightarrow> 'd" where
  "decorator_invoke_get_decorator self xs = first (decorator_invoke_get_pair self xs)"

definition decorator_invoke_get_data :: "('d, 't, 'f) decorator_invoke \<Rightarrow> 'a list \<Rightarrow> 't" where
  "decorator_invoke_get_data self xs = second (decorator_invoke_get_pair self xs)"

text \<open>
  \<^verbatim>\<open>decorator_invoke::operator()\<close>, for a decorator operation, data and target callable
  that are plain values without mutable members. A member function is modelled with the
  receiver after the call as second component of its result. This one is const and only
  reads its members, so with such values the receiver comes back as it was. The general
  case follows below.
\<close>

definition decorator_invoke_call ::
  "(('t, 'f, 'a, 'r, 'w) decorator, 't, 'f) decorator_invoke \<Rightarrow> 'a list \<Rightarrow> 'w \<Rightarrow>
     ('r \<times> 'w) \<times> (('t, 'f, 'a, 'r, 'w) decorator, 't, 'f) decorator_invoke" where
  "decorator_invoke_call self xs w =
     ((decorator_invoke_get_decorator self xs)
        (decorator_invoke_get_data self xs)
        (decorator_invoke_base_function self xs)
        xs w,
      self)"



text \<open>
  \<^verbatim>\<open>decoration::operator()(F f) const\<close> constructs
  \<^verbatim>\<open>decorator_invoke<D, T, callable_base<F>>(*this, static_cast<callable_base<F>&&>(f))\<close>:
  the new object holds a copy of the receiver, which stays as it was.
\<close>

definition decoration_call :: "('d, 't) decoration \<Rightarrow> 'f \<Rightarrow> ('d, 't, 'f) decorator_invoke \<times> ('d, 't) decoration" where
  "decoration_call self f = (\<lparr>first = self, second = callable_base f\<rparr>, self)"

text \<open>\<^verbatim>\<open>decorate_adaptor_builder::apply\<close>: \<^verbatim>\<open>decoration<F, T>(f, static_cast<T&&>(x))\<close>.\<close>

definition decorate_adaptor_builder_apply :: "'d \<Rightarrow> 't \<Rightarrow> ('d, 't) decoration" where
  "decorate_adaptor_builder_apply f x = \<lparr>first = f, second = x\<rparr>"

text \<open>
  Modelled from the spec: \<^verbatim>\<open>unary_adaptor_builder\<close> (\<^verbatim>\<open>fit/detail/builder/unary.hpp\<close>) is
  not among the sources. By the spec the decorator adaptor is constructed from the
  decorator operation and is a callable that accepts the data.
\<close>

datatype 'd decorate_adaptor = Decorate_adaptor 'd

text \<open>
  Modelled from the spec: \<^verbatim>\<open>decorate(d)\<close>, which the absent builder declares, constructs
  the adaptor from the decorator operation.
\<close>

definition decorate :: "'d \<Rightarrow> 'd decorate_adaptor" where
  "decorate f = Decorate_adaptor f"

text \<open>
  Modelled from the spec: the call operator of the adaptor, which the absent builder
  declares, runs \<^verbatim>\<open>decorate_adaptor_builder::apply\<close> on the stored decorator operation and
  the data.
\<close>

fun decorate_adaptor_call :: "'d decorate_adaptor \<Rightarrow> 't \<Rightarrow> ('d, 't) decoration" where
  "decorate_adaptor_call (Decorate_adaptor f) x = decorate_adaptor_builder_apply f x"

text \<open>\<^verbatim>\<open>decorate(d)(x)(g)\<close>, the decorator invocation object.\<close>

definition decorated :: "'d \<Rightarrow> 't \<Rightarrow> 'f \<Rightarrow> ('d, 't, 'f) decorator_invoke" where
  "decorated d x g = fst (decoration_call (decorate_adaptor_call (decorate d) x) g)"

text \<open>
  Const in C++ is shallow. The call operator of the decorator operation is const and
  receives data and target callable by reference to const, yet members declared mutable,
  of any of the three, can be written through these references. The call operator of a
  decorator class takes the decorator, the data and the target as they are stored, and
  returns, besides result and world, the three as the call leaves them.
\<close>

type_synonym ('d, 't, 'f, 'a, 'r, 'w) decorator_class =
  "'d \<Rightarrow> 't \<Rightarrow> 'f \<Rightarrow> 'a list \<Rightarrow> 'w \<Rightarrow> ('r \<times> 'w) \<times> ('d \<times> 't \<times> 'f)"

text \<open>
  \<^verbatim>\<open>decorator_invoke::operator()\<close> in general: it calls the stored decorator on the stored
  data and target by reference, so what the call does to them is done to what the object
  stores; the function itself writes nothing.
\<close>

definition decorator_invoke_call_mutable ::
  "('d, 't, 'f, 'a, 'r, 'w) decorator_class \<Rightarrow> ('d, 't, 'f) decorator_invoke \<Rightarrow> 'a list \<Rightarrow> 'w \<Rightarrow>
     ('r \<times> 'w) \<times> ('d, 't, 'f) decorator_invoke" where
  "decorator_invoke_call_mutable call_operator self xs w =
     (case call_operator
             (decorator_invoke_get_decorator self xs)
             (decorator_invoke_get_data self xs)
             (decorator_invoke_base_function self xs)
             xs w of
        (rw, (d', x', g')) \<Rightarrow> (rw, \<lparr>first = \<lparr>first = d', second = x'\<rparr>, second = g'\<rparr>))"

text \<open>A sequence of calls on one decorator invocation object, one argument list each.\<close>

fun decorator_invoke_calls_mutable ::
  "('d, 't, 'f, 'a, 'r, 'w) decorator_class \<Rightarrow> ('d, 't, 'f) decorator_invoke \<Rightarrow> 'a list list \<Rightarrow> 'w \<Rightarrow>
     ('r list \<times> 'w) \<times> ('d, 't, 'f) decorator_invoke" where
  "decorator_invoke_calls_mutable call_operator self [] w = (([], w), self)"
| "decorator_invoke_calls_mutable call_operator self (xs # xss) w =
     (case decorator_invoke_call_mutable call_operator self xs w of
        ((r, w'), self') \<Rightarrow>
          (case decorator_invoke_calls_mutable call_operator self' xss w' of
             ((rs, w''), self'') \<Rightarrow> ((r # rs, w''), self'')))"

text \<open>
  The call operator of a decorator operation that is a plain value: it leaves decorator,
  data and target as they are.
\<close>

definition stateless_call :: "(('t, 'f, 'a, 'r, 'w) decorator, 't, 'f, 'a, 'r, 'w) decorator_class" where
  "stateless_call d x g xs w = (d x g xs w, (d, x, g))"

text \<open>
  A decorator operation with a call counter,
  \<^verbatim>\<open>struct counting { mutable int n = 0; template<class... Ts> int operator()(Ts&&...) const { return n++; } }\<close>:
  a call returns the count of the calls before it and advances the counter.
\<close>

definition counting_call :: "(nat, 't, 'f, 'a, nat, 'w) decorator_class" where
  "counting_call n x g xs w = ((n, w), (Suc n, x, g))"

text \<open>
  Calls of one callable \<open>h\<close> in a row, one argument list each, the world passed from
  each to the next.
\<close>

fun run_calls :: "('a list \<Rightarrow> 'w \<Rightarrow> 'r \<times> 'w) \<Rightarrow> 'a list list \<Rightarrow> 'w \<Rightarrow> 'r list \<times> 'w" where
  "run_calls h [] w = ([], w)"
| "run_calls h (xs # xss) w =
     (case h xs w of (r, w') \<Rightarrow> (case run_calls h xss w' of (rs, w'') \<Rightarrow> (r # rs, w'')))"

subsection \<open>Decorator operations used to observe calls\<close>

text \<open>A decorator operation instrumented with a log of the arguments of its calls.\<close>

definition logged_decorator ::
  "('t, 'f, 'a, 'r, 'w) decorator \<Rightarrow> ('t, 'f, 'a, 'r, 'w \<times> ('t \<times> 'f \<times> 'a list) list) decorator" where
  "logged_decorator d x g xs = (\<lambda>(w, log). case d x g xs w of (r, w') \<Rightarrow> (r, (w', log @ [(x, g, xs)])))"

text \<open>
  The \<^verbatim>\<open>logger_f\<close> and \<^verbatim>\<open>sum_f\<close> of the documentation. The world of the logger is the
  lines written to the output; \<^verbatim>\<open>sum_f\<close> takes two arguments.
\<close>

definition logger_f :: "(string, 'a list \<Rightarrow> string list \<Rightarrow> 'r \<times> string list, 'a, 'r, string list) decorator" where
  "logger_f message f xs out = f xs (out @ [message])"

definition sum_f :: "int list \<Rightarrow> 'w \<Rightarrow> (error + int) \<times> 'w" where
  "sum_f xs w = (case xs of [x, y] \<Rightarrow> (Inr (x + y), w) | _ \<Rightarrow> (Inl No_matching_overload, w))"

section \<open>Compile-time model: capability detection\<close>

text \<open>
  Types are names \<open>'n\<close>; \<^verbatim>\<open>const T&\<close> is written apart because \<^verbatim>\<open>decorator_invoke\<close>
  passes its members that way, and \<^verbatim>\<open>void\<close> because a call may have it as result type
  while no argument can have it. A callable type is known to the compiler through three
  things: its name, the result type its declaration gives a call on a const object for
  each list of argument types (\<open>None\<close> when the declaration does not substitute), and
  its nested \<^verbatim>\<open>failure\<close> member when it declares one.
\<close>

datatype 'n ctype = Ty 'n | Const_lref 'n | Void

type_synonym 'n signature = "'n ctype list \<Rightarrow> 'n ctype option"

datatype 'n failure_descriptor = Not_invocable 'n "'n ctype list"

type_synonym 'n failure = "'n ctype list \<Rightarrow> 'n failure_descriptor list"

record 'n callable_type =
  type_name :: 'n
  result_of :: "'n signature"
  nested_failure :: "'n failure option"

text \<open>
  Modelled from the spec: the macros \<^verbatim>\<open>FIT_SFINAE_RESULT\<close> and
  \<^verbatim>\<open>FIT_SFINAE_MANUAL_RESULT\<close> and the \<^verbatim>\<open>result_of\<close> trait are not among the
  sources. By the spec a probe of an operation on a list of argument types yields
  whether the call is invocable and, if so, its result type; a function declared with
  such a result takes part in overload resolution only where the probe succeeds. The
  capability query on a probe:
\<close>

definition invocable :: "'a option \<Rightarrow> bool" where
  "invocable probe = (probe \<noteq> None)"

subsection \<open>The fold engine\<close>

text \<open>
  The declaration of a callable is all a capability query sees. Whether the body of the
  callable compiles for given argument types is a second matter, known only when the
  body is instantiated for a call, where an error is a hard error. A call of an
  operation is well-formed when its declaration substitutes and its body instantiates.
\<close>

definition operation_call_well_formed :: "'n signature \<Rightarrow> ('n ctype list \<Rightarrow> bool) \<Rightarrow> 'n ctype list \<Rightarrow> bool" where
  "operation_call_well_formed F F_body Ts = (invocable (F Ts) \<and> F_body Ts)"

text \<open>
  The declared result types of \<^verbatim>\<open>detail::v_fold\<close>. First overload:
  \<^verbatim>\<open>FIT_SFINAE_MANUAL_RESULT(const v_fold&, id_<const F&>, result_of<const F&, id_<State>, id_<T>>, id_<Ts>...)\<close>,
  the result of \<^verbatim>\<open>v_fold\<close> on the result type of \<^verbatim>\<open>F\<close> on \<^verbatim>\<open>(State, T)\<close> followed by
  \<^verbatim>\<open>Ts...\<close>; a \<^verbatim>\<open>void\<close> result cannot stand as an argument, so the declaration does not
  substitute then. Second overload: \<^verbatim>\<open>State\<close>. The parameter lists fix which overload
  can match: at least two arguments after \<^verbatim>\<open>f\<close> for the first, exactly one for the second.
\<close>

fun v_fold_result :: "'n signature \<Rightarrow> 'n ctype list \<Rightarrow> 'n ctype option" where
  "v_fold_result F (State # T # Ts) =
     (case F [State, T] of
        None \<Rightarrow> None
      | Some State' \<Rightarrow> (if State' = Void then None else v_fold_result F (State' # Ts)))"
| "v_fold_result F [State] = Some State"
| "v_fold_result F [] = None"

text \<open>
  A call of \<^verbatim>\<open>v_fold\<close> is well-formed when overload resolution finds a candidate whose
  declared result substitutes and the body of that candidate instantiates. The body of
  the first overload is \<^verbatim>\<open>(*this)(f, f(state, x), xs...)\<close>: the call \<^verbatim>\<open>f(state, x)\<close>, whose
  result must be able to stand as an argument, and then the call of \<^verbatim>\<open>v_fold\<close> on this
  result. The body of the second overload returns its argument. \<open>F_body\<close> tells for
  which argument types the body of the operation compiles. All types are taken to be
  copy constructible, as the documentation of \<^verbatim>\<open>compress\<close> requires of the state.
\<close>

fun v_fold_well_formed :: "'n signature \<Rightarrow> ('n ctype list \<Rightarrow> bool) \<Rightarrow> 'n ctype list \<Rightarrow> bool" where
  "v_fold_well_formed F F_body (State # T # Ts) =
     (invocable (v_fold_result F (State # T # Ts)) \<and>
      operation_call_well_formed F F_body [State, T] \<and>
      (case F [State, T] of
         None \<Rightarrow> False
       | Some State' \<Rightarrow> State' \<noteq> Void \<and> v_fold_well_formed F F_body (State' # Ts)))"
| "v_fold_well_formed F F_body [State] = True"
| "v_fold_well_formed F F_body [] = False"

text \<open>
  \<^verbatim>\<open>compress_binary_adaptor_base::apply\<close>: declared result
  \<^verbatim>\<open>FIT_SFINAE_RESULT(detail::v_fold, id_<const F&>, id_<State>, id_<Ts>...)\<close>, body
  \<^verbatim>\<open>detail::v_fold()(f, fit::move(state), xs...)\<close>. The call is well-formed when the
  declared result substitutes and the body, a call of \<^verbatim>\<open>v_fold\<close>, is well-formed.
\<close>

definition compress_binary_apply_result :: "'n signature \<Rightarrow> 'n ctype \<Rightarrow> 'n ctype list \<Rightarrow> 'n ctype option" where
  "compress_binary_apply_result F State Ts = v_fold_result F (State # Ts)"



text \<open>
  \<^verbatim>\<open>compress_unary_adaptor_base::apply\<close>: declared result
  \<^verbatim>\<open>FIT_SFINAE_RESULT(detail::v_fold, id_<const F&>, id_<Ts>...)\<close>, body
  \<^verbatim>\<open>detail::v_fold()(f, xs...)\<close>.
\<close>

definition compress_unary_apply_result :: "'n signature \<Rightarrow> 'n ctype list \<Rightarrow> 'n ctype option" where
  "compress_unary_apply_result F Ts = v_fold_result F Ts"

definition compress_unary_apply_body_well_formed :: "'n signature \<Rightarrow> ('n ctype list \<Rightarrow> bool) \<Rightarrow> 'n ctype list \<Rightarrow> bool" where
  "compress_unary_apply_body_well_formed F F_body Ts = v_fold_well_formed F F_body Ts"

definition compress_unary_apply_well_formed :: "'n signature \<Rightarrow> ('n ctype list \<Rightarrow> bool) \<Rightarrow> 'n ctype list \<Rightarrow> bool" where
  "compress_unary_apply_well_formed F F_body Ts =
     (invocable (compress_unary_apply_result F Ts) \<and>
      compress_unary_apply_body_well_formed F F_body Ts)"

text \<open>
  The failure member of the two adaptor bases: both \<^verbatim>\<open>base<F...>\<close> are empty
  (\<^verbatim>\<open>// TODO: Implement failure\<close>), so neither declares a nested \<^verbatim>\<open>failure\<close>.
\<close>

definition compress_binary_adaptor_base_base :: "'n callable_type list \<Rightarrow> 'n failure option" where
  "compress_binary_adaptor_base_base Fs = None"

definition compress_unary_adaptor_base_base :: "'n callable_type list \<Rightarrow> 'n failure option" where
  "compress_unary_adaptor_base_base Fs = None"

subsection \<open>The decorator invocation\<close>

text \<open>
  \<^verbatim>\<open>decorator_invoke<D, T, F>::operator()\<close>: declared result
  \<^verbatim>\<open>FIT_SFINAE_RESULT(const D&, id_<const T&>, id_<const F&>, id_<Ts>...)\<close>; the body calls the
  decorator, cast to \<^verbatim>\<open>const D&\<close>, on the data cast to \<^verbatim>\<open>const T&\<close>, the function cast to
  \<^verbatim>\<open>const F&\<close>, and the forwarded \<^verbatim>\<open>xs...\<close>.
\<close>

definition decorator_invoke_result :: "'n signature \<Rightarrow> 'n \<Rightarrow> 'n \<Rightarrow> 'n ctype list \<Rightarrow> 'n ctype option" where
  "decorator_invoke_result D T F Ts = D (Const_lref T # Const_lref F # Ts)"

definition decorator_invoke_body_args :: "'n \<Rightarrow> 'n \<Rightarrow> 'n ctype list \<Rightarrow> 'n ctype list" where
  "decorator_invoke_body_args T F Ts = [Const_lref T, Const_lref F] @ Ts"









text \<open>
  Modelled from the spec: \<^verbatim>\<open>get_failure\<close> (\<^verbatim>\<open>fit/reveal.hpp\<close>) is not among the sources.
  By the spec a failure descriptor is a structured record naming the component that is
  not invocable and the argument types it was tried on, and an outer adaptor enriches the
  failure of the operation it wraps without losing it. A callable with a nested
  \<^verbatim>\<open>failure\<close> reports that; one without reports itself with the argument types of the
  call.
\<close>

definition get_failure :: "'n callable_type \<Rightarrow> 'n failure" where
  "get_failure F =
     (case nested_failure F of
        Some fl \<Rightarrow> fl
      | None \<Rightarrow> (\<lambda>Ts. [Not_invocable (type_name F) Ts]))"

text \<open>
  Modelled from the spec: \<^verbatim>\<open>failure_map<Transform, Fs...>\<close> (\<^verbatim>\<open>fit/reveal.hpp\<close>) is not
  among the sources. It collects the failures of the wrapped callables, each enriched by
  the transformation.
\<close>

definition failure_map :: "('n failure \<Rightarrow> 'n failure) \<Rightarrow> 'n callable_type list \<Rightarrow> 'n failure" where
  "failure_map Transform Fs = (\<lambda>Ts. concat (map (\<lambda>F. Transform (get_failure F) Ts) Fs))"

text \<open>
  \<^verbatim>\<open>decorator_invoke_failure::apply<Failure>::of<Ts...>\<close> derives from
  \<^verbatim>\<open>Failure::of<const T&, const F&, Ts...>\<close>, and the \<^verbatim>\<open>failure\<close> member of
  \<^verbatim>\<open>decorator_invoke\<close> is \<^verbatim>\<open>failure_map<decorator_invoke_failure, D>\<close>.
\<close>

definition decorator_invoke_failure :: "'n \<Rightarrow> 'n \<Rightarrow> 'n failure \<Rightarrow> 'n failure" where
  "decorator_invoke_failure T F Failure = (\<lambda>Ts. Failure (Const_lref T # Const_lref F # Ts))"

definition decorator_invoke_failure_member :: "'n callable_type \<Rightarrow> 'n \<Rightarrow> 'n \<Rightarrow> 'n failure" where
  "decorator_invoke_failure_member D T F = failure_map (decorator_invoke_failure T F) [D]"

text \<open>
  Modelled from the spec: the builder that declares the public adaptor type from
  \<^verbatim>\<open>apply\<close> and \<^verbatim>\<open>base<F...>\<close> (\<^verbatim>\<open>fit/detail/builder.hpp\<close>) is not among the sources.
  By the spec the binary-seeded adaptor, constructed from (operation, seed), and the unary
  adaptor, constructed from the operation, answer the capability query as the fold they
  run does; the adaptor derives from the base, so its nested \<^verbatim>\<open>failure\<close> is the base's.
\<close>

definition compress_adaptor_type :: "'n \<Rightarrow> 'n callable_type \<Rightarrow> 'n ctype option \<Rightarrow> 'n callable_type" where
  "compress_adaptor_type name F seed =
     \<lparr>type_name = name,
      result_of = (case seed of
                     Some State \<Rightarrow> compress_binary_apply_result (result_of F) State
                   | None \<Rightarrow> compress_unary_apply_result (result_of F)),
      nested_failure = (case seed of
                     Some State \<Rightarrow> compress_binary_adaptor_base_base [F]
                   | None \<Rightarrow> compress_unary_adaptor_base_base [F])\<rparr>"

text \<open>Example types: an addition that is declared on two \<^verbatim>\<open>int\<close> only.\<close>

datatype tname = T_int | T_string | T_add_f | T_compress_adaptor | T_max_f

definition add_f_type :: "tname callable_type" where
  "add_f_type =
     \<lparr>type_name = T_add_f,
      result_of = (\<lambda>Ts. if Ts = [Ty T_int, Ty T_int] then Some (Ty T_int) else None),
      nested_failure = None\<rparr>"








section \<open>The fold laws\<close>

lemma v_fold_pure: "v_fold (pure_op g) (z # xs) w = Inr (foldl g z xs, w)"
  by (induction xs arbitrary: z) (simp_all add: pure_op_def)



lemma v_fold_left_fold: "v_fold f (z # xs) w = Inr (left_fold f z xs w)"
  by (induction xs arbitrary: z w) (simp_all split: prod.split)




text \<open>
  The laws of the seeded fold for an operation \<open>f\<close> that returns by value: the seeded
  adaptor called with no argument returns \<open>z\<close> and leaves the world untouched, so \<open>f\<close> is
  not invoked (the call counter of an instrumented \<open>f\<close> stays where it was); called with
  \<open>x, xs...\<close> it behaves as the adaptor seeded with \<open>f(z, x)\<close> called with \<open>xs...\<close>; hence
  it is the left fold of \<open>f\<close> over the arguments from \<open>z\<close>, for a side-effect free
  operation \<open>foldl\<close>, and \<open>compress(add, 0)(1, 2, 3) = 6\<close>.
\<close>

lemma compress_seeded_by_value_laws:
  "compress_call (compress_seeded f z) [] w = Inr (z, w)
   \<and> compress_call (compress_seeded (counted f) z) [] (w, n) = Inr (z, (w, n))
   \<and> compress_call (compress_seeded f z) (x # xs) w =
       (case f z x w of (z', w') \<Rightarrow> compress_call (compress_seeded f z') xs w')
   \<and> compress_call (compress_seeded f z) xs w = Inr (left_fold f z xs w)
   \<and> compress_call (compress_seeded (pure_op g) z) xs w = Inr (foldl g z xs, w)
   \<and> compress_call (compress_seeded (pure_op add) 0) [] w = Inr (0, w)
   \<and> compress_call (compress_seeded (pure_op add) 0) [1, 2, 3] w = Inr (6, w)"
proof -
  have pure: "compress_call (compress_seeded (pure_op h) s) ys w = Inr (foldl h s ys, w)"
    for h :: "'c \<Rightarrow> 'c \<Rightarrow> 'c" and s ys
    by (simp only: compress_seeded_def compress_call.simps compress_binary_apply_def v_fold_pure)
  have identity: "compress_call (compress_seeded f z) [] w = Inr (z, w)"
    by (simp add: compress_seeded_def compress_binary_apply_def)
  have no_call: "compress_call (compress_seeded (counted f) z) [] (w, n) = Inr (z, (w, n))"
    by (simp add: compress_seeded_def compress_binary_apply_def)
  have step: "compress_call (compress_seeded f z) (x # xs) w =
       (case f z x w of (z', w') \<Rightarrow> compress_call (compress_seeded f z') xs w')"
    by (simp add: compress_seeded_def compress_binary_apply_def)
  have fold: "compress_call (compress_seeded f z) xs w = Inr (left_fold f z xs w)"
    by (simp only: compress_seeded_def compress_call.simps compress_binary_apply_def
        v_fold_left_fold)
  have sum0: "compress_call (compress_seeded (pure_op add) 0) [] w = Inr (0, w)"
    by (simp add: pure)
  have sum3: "compress_call (compress_seeded (pure_op add) 0) [1, 2, 3] w = Inr (6, w)"
    by (simp add: pure add_def)
  show ?thesis
    by (intro conjI) (rule identity no_call step fold pure sum0 sum3)+
qed

text \<open>
  The laws of the self-seeding fold for an operation \<open>f\<close> that returns by value: called
  with the single argument \<open>x\<close> the adaptor returns \<open>x\<close> and leaves the world untouched, so
  \<open>f\<close> is not invoked; called with \<open>x, y, xs...\<close> it behaves as the adaptor seeded with
  \<open>f(x, y)\<close> called with \<open>xs...\<close>.
\<close>

lemma compress_unary_by_value_laws:
  "compress_call (compress f) [x] w = Inr (x, w)
   \<and> compress_call (compress (counted f)) [x] (w, n) = Inr (x, (w, n))
   \<and> compress_call (compress f) (x # y # xs) w =
       (case f x y w of (s, w') \<Rightarrow> compress_call (compress_seeded f s) xs w')
   \<and> compress_call (compress f) (x # xs) w = compress_call (compress_seeded f x) xs w"
  by (simp add: compress_def compress_seeded_def compress_unary_apply_def
      compress_binary_apply_def)


section \<open>The fold with references\<close>

lemma read_destroy_other: "l \<noteq> t \<Longrightarrow> read l (destroy t s) = read l s"
  by (simp add: read_def destroy_def)

lemma read_Some_in_range: "read l s = Some v \<Longrightarrow> l < length s"
  by (simp add: read_def split: if_splits)

lemma v_fold_ref_by_value:
  "read t s = Some z \<Longrightarrow> list_all2 (\<lambda>r v. read (referent r) s = Some v) rs vs \<Longrightarrow>
   \<exists>s'. v_fold_ref (by_value g) (Xvalue t # rs) s = Inr (Prvalue (foldl g z vs), s') \<and>
        length s \<le> length s' \<and> (\<forall>l<length s. read l s' = read l s)"
proof (induction rs arbitrary: t s z vs)
  case Nil
  then show ?case by simp
next
  case (Cons r rs)
  from Cons.prems(2) obtain v vs' where vs: "vs = v # vs'"
    and r: "read (referent r) s = Some v"
    and rest: "list_all2 (\<lambda>r v. read (referent r) s = Some v) rs vs'"
    by (auto simp add: list_all2_Cons1)
  let ?s1 = "s @ [Some (g z v)]"
  have step: "by_value g (Xvalue t) r s = Inr (Prvalue (g z v))"
    using Cons.prems(1) r by (simp add: by_value_def)
  have new: "read (length s) ?s1 = Some (g z v)"
    by (simp add: read_def)
  have old: "read l ?s1 = read l s" if "l < length s" for l
    using that by (simp add: read_def nth_append)
  have "list_all2 (\<lambda>r v. read (referent r) ?s1 = Some v) rs vs'"
    using rest
    by (rule list_all2_mono) (metis old read_Some_in_range)
  from Cons.IH [OF new this] obtain s2 where
    run: "v_fold_ref (by_value g) (Xvalue (length s) # rs) ?s1 =
        Inr (Prvalue (foldl g (g z v) vs'), s2)"
    and len: "length ?s1 \<le> length s2"
    and kept: "\<forall>l<length ?s1. read l s2 = read l ?s1"
    by blast
  have "v_fold_ref (by_value g) (Xvalue t # r # rs) s =
      Inr (Prvalue (foldl g z vs), destroy (length s) s2)"
    by (simp add: step alloc_def run vs)
  moreover have "length s \<le> length (destroy (length s) s2)"
    using len by (simp add: destroy_def)
  moreover have "\<forall>l<length s. read l (destroy (length s) s2) = read l s"
    using kept old by (simp add: read_destroy_other)
  ultimately show ?case by blast
qed

text \<open>
  For an operation that takes and returns by value the seeded fold with references
  returns the left fold by value, whatever the value categories of the arguments, as
  long as the arguments are alive: for such operations the fold on values above says
  what the code does.
\<close>

lemma compress_binary_apply_ref_by_value:
  assumes "list_all2 (\<lambda>r v. read (referent r) s = Some v) rs vs"
  shows "result_value (compress_binary_apply_ref (by_value g) z rs s) = Inr (foldl g z vs)"
proof -
  let ?s1 = "s @ [Some z]"
  have new: "read (length s) ?s1 = Some z"
    by (simp add: read_def)
  have old: "read l ?s1 = read l s" if "l < length s" for l
    using that by (simp add: read_def nth_append)
  have "list_all2 (\<lambda>r v. read (referent r) ?s1 = Some v) rs vs"
    using assms
    by (rule list_all2_mono) (metis old read_Some_in_range)
  from v_fold_ref_by_value [OF new this] obtain s2 where
    "v_fold_ref (by_value g) (Xvalue (length s) # rs) ?s1 = Inr (Prvalue (foldl g z vs), s2)"
    by blast
  then show ?thesis
    by (simp add: compress_binary_apply_ref_def alloc_def result_value_def)
qed

text \<open>
  C1, at \<^verbatim>\<open>compress(max_ref, 10)(2, 3)\<close> and \<^verbatim>\<open>compress(max_ref, 10)(3)\<close>, the arguments being
  temporaries of the caller. The operation returns a reference to the larger operand,
  here the state, which is the by-value parameter of \<^verbatim>\<open>apply\<close>; \<^verbatim>\<open>apply\<close> returns this
  reference and its parameter is destroyed: the caller holds a dangling reference, where
  the left fold is \<open>10\<close>. The step law breaks between \<^verbatim>\<open>compress(max_ref, 10)(3)\<close> and
  \<^verbatim>\<open>compress(max_ref, max_ref(10, 3))()\<close>, which returns \<open>10\<close> by value.
\<close>

theorem compress_seeded_dangling_reference:
  "compress_binary_apply_ref max_ref 10 [Xvalue 0, Xvalue 1] [Some 2, Some 3] =
     Inr (Glvalue (Lvalue 2), [Some 2, Some 3, None])
   \<and> result_value (compress_binary_apply_ref max_ref 10 [Xvalue 0, Xvalue 1] [Some 2, Some 3]) =
     Inl Dangling_reference
   \<and> result_value (compress_binary_apply_ref max_ref 10 [Xvalue 0] [Some 3]) = Inl Dangling_reference
   \<and> result_value (compress_binary_apply_ref max_ref 10 [] [Some 3]) = Inr 10
   \<and> result_value (compress_binary_apply_ref (by_value max_f) 10 [Xvalue 0, Xvalue 1]
       [Some 2, Some 3]) = Inr 10
   \<and> foldl max_f 10 [2, 3] = 10"
  by (simp add: compress_binary_apply_ref_def alloc_def destroy_def read_def max_ref_def
      result_value_def by_value_def max_f_def)

text \<open>
  C2, at \<^verbatim>\<open>compress(max_ref)(10, 2, 3)\<close>, the arguments being temporaries of the caller at
  the locations 0, 1 and 2. The self-seeding adaptor returns a reference to the first
  argument, alive in the caller's expression, with value \<open>10\<close>. The seed \<^verbatim>\<open>max_ref(10, 2)\<close>
  has the value \<open>10\<close>, and the seeded adaptor with this seed called with the third
  argument returns a dangling reference to the parameter of its \<^verbatim>\<open>apply\<close>. The unary
  identity law holds.
\<close>

theorem compress_unary_live_seeded_dangling:
  "compress_unary_apply_ref max_ref [Xvalue 0, Xvalue 1, Xvalue 2] [Some 10, Some 2, Some 3] =
     Inr (Glvalue (Lvalue 0), [Some 10, Some 2, Some 3])
   \<and> result_value (compress_unary_apply_ref max_ref [Xvalue 0, Xvalue 1, Xvalue 2]
       [Some 10, Some 2, Some 3]) = Inr 10
   \<and> max_ref (Xvalue 0) (Xvalue 1) [Some 10, Some 2, Some 3] = Inr (Glvalue (Lvalue 0))
   \<and> read 0 [Some 10, Some 2, Some (3::int)] = Some 10
   \<and> compress_binary_apply_ref max_ref 10 [Xvalue 2] [Some 10, Some 2, Some 3] =
     Inr (Glvalue (Lvalue 3), [Some 10, Some 2, Some 3, None])
   \<and> result_value (compress_binary_apply_ref max_ref 10 [Xvalue 2] [Some 10, Some 2, Some 3]) =
     Inl Dangling_reference
   \<and> result_value (compress_unary_apply_ref max_ref [Xvalue 0] [Some 10]) = Inr 10"
  by (simp add: compress_unary_apply_ref_def compress_binary_apply_ref_def alloc_def
      destroy_def read_def max_ref_def result_value_def)


section \<open>Capability detection\<close>








text \<open>
  C5. The decorator invocation answers the capability query on \<open>Ts\<close> as the decorator
  operation does on \<^verbatim>\<open>(const T&, const F&, Ts...)\<close>, with the same result type. Its failure
  is the failure of the decorator operation on these types: for a decorator operation
  without a failure of its own the descriptor names the decorator operation, and carries
  the data type, the function type and the argument types.
\<close>

theorem decorator_invoke_capability:
  "decorator_invoke_result (result_of D) T F Ts = result_of D (Const_lref T # Const_lref F # Ts)
   \<and> invocable (decorator_invoke_result (result_of D) T F Ts) =
       invocable (result_of D (Const_lref T # Const_lref F # Ts))
   \<and> decorator_invoke_failure_member D T F Ts = get_failure D (Const_lref T # Const_lref F # Ts)
   \<and> decorator_invoke_failure_member
         \<lparr>type_name = d, result_of = sig, nested_failure = None\<rparr> T F Ts =
       [Not_invocable d (Const_lref T # Const_lref F # Ts)]"
  by (simp add: decorator_invoke_result_def decorator_invoke_failure_member_def failure_map_def
      decorator_invoke_failure_def get_failure_def)

text \<open>
  C6, at the call \<^verbatim>\<open>compress(add)(1, 2, "a")\<close> and at \<^verbatim>\<open>compress(add, 0)("a")\<close>, with an addition
  declared on two \<^verbatim>\<open>int\<close> only. The step \<^verbatim>\<open>add(int, string)\<close> is not invocable and both
  adaptors are not invocable. Neither adaptor base declares a failure, so the descriptor
  obtained for either adaptor names the adaptor with the argument types of the whole
  call, not the operation with the operand types of the failing step.
\<close>

theorem compress_failure_not_implemented:
  "result_of add_f_type [Ty T_int, Ty T_string] = None
   \<and> \<not> invocable (result_of (compress_adaptor_type T_compress_adaptor add_f_type None)
         [Ty T_int, Ty T_int, Ty T_string])
   \<and> \<not> invocable (result_of (compress_adaptor_type T_compress_adaptor add_f_type (Some (Ty T_int)))
         [Ty T_string])
   \<and> compress_unary_adaptor_base_base [add_f_type] = None
   \<and> compress_binary_adaptor_base_base [add_f_type] = None
   \<and> get_failure (compress_adaptor_type T_compress_adaptor add_f_type None)
         [Ty T_int, Ty T_int, Ty T_string] =
       [Not_invocable T_compress_adaptor [Ty T_int, Ty T_int, Ty T_string]]
   \<and> get_failure (compress_adaptor_type T_compress_adaptor add_f_type (Some (Ty T_int)))
         [Ty T_string] =
       [Not_invocable T_compress_adaptor [Ty T_string]]
   \<and> get_failure (compress_adaptor_type T_compress_adaptor add_f_type None)
         [Ty T_int, Ty T_int, Ty T_string] \<noteq> get_failure add_f_type [Ty T_int, Ty T_string]"
  by (simp add: compress_adaptor_type_def add_f_type_def invocable_def get_failure_def
      compress_unary_apply_result_def compress_binary_apply_result_def
      compress_unary_adaptor_base_base_def compress_binary_adaptor_base_base_def)

text \<open>
  C9. The self-seeding adaptor is not invocable with an empty argument list, whatever the
  operation: no overload of the fold engine takes the operation alone, the capability
  query fails, the call is not well-formed, and the run-time model has no overload to run.
\<close>

theorem compress_unary_no_arguments:
  "compress_unary_apply_result F [] = None
   \<and> \<not> invocable (compress_unary_apply_result F [])
   \<and> \<not> compress_unary_apply_well_formed F F_body []
   \<and> \<not> invocable (result_of (compress_adaptor_type name G None) [])
   \<and> compress_call (compress f) [] w = Inl No_matching_overload"
  by (simp add: compress_unary_apply_result_def compress_unary_apply_well_formed_def
      invocable_def compress_adaptor_type_def compress_def compress_unary_apply_def)

section \<open>The decorator laws\<close>

lemma decorated_eq: "decorated d x g = \<lparr>first = \<lparr>first = d, second = x\<rparr>, second = g\<rparr>"
  by (simp add: decorated_def decoration_call_def decorate_def decorate_adaptor_builder_apply_def
      callable_base_def)

lemma decorator_invoke_call_eq:
  "decorator_invoke_call \<lparr>first = \<lparr>first = d, second = x\<rparr>, second = g\<rparr> xs w =
     (d x g xs w, \<lparr>first = \<lparr>first = d, second = x\<rparr>, second = g\<rparr>)"
  by (simp add: decorator_invoke_call_def decorator_invoke_get_decorator_def
      decorator_invoke_get_data_def decorator_invoke_base_function_def
      decorator_invoke_get_pair_def)

text \<open>
  C3. For every decorator operation \<open>d\<close>, data \<open>x\<close>, target callable \<open>g\<close> and trailing
  arguments \<open>xs\<close>: a call of \<^verbatim>\<open>decorate(d)(x)(g)\<close> on \<open>xs\<close> has the result and the side
  effects of \<open>d(x, g, xs...)\<close>; a decorator operation that logs its calls logs one call, with
  the data first, the target callable second and the trailing arguments after them. The
  documented \<^verbatim>\<open>logger("Calling sum")(sum)(1, 2)\<close> is \<open>3\<close> and prints the message once.
\<close>

theorem decorate_application_law:
  "fst (decorator_invoke_call (decorated d x g) xs w) = d x g xs w
   \<and> fst (decorator_invoke_call (decorated (logged_decorator d) x g) xs (w, log)) =
       (case d x g xs w of (r, w') \<Rightarrow> (r, (w', log @ [(x, g, xs)])))
   \<and> fst (decorator_invoke_call (decorated logger_f ''Calling sum'' sum_f) [1, 2] []) =
       (Inr 3, [''Calling sum''])"
  by (simp add: decorated_eq decorator_invoke_call_eq logged_decorator_def logger_f_def sum_f_def)


lemma decorator_invoke_call_mutable_decorated:
  "decorator_invoke_call_mutable call_operator (decorated d x g) xs w =
     (case call_operator d x g xs w of (rw, (d', x', g')) \<Rightarrow> (rw, decorated d' x' g'))"
  by (simp add: decorator_invoke_call_mutable_def decorated_eq decorator_invoke_get_decorator_def
      decorator_invoke_get_data_def decorator_invoke_base_function_def
      decorator_invoke_get_pair_def)

lemma decorator_invoke_call_mutable_stateless:
  "decorator_invoke_call_mutable stateless_call self xs w = decorator_invoke_call self xs w"
  by (simp add: decorator_invoke_call_mutable_def decorator_invoke_call_def stateless_call_def
      decorator_invoke_get_decorator_def decorator_invoke_get_data_def
      decorator_invoke_base_function_def decorator_invoke_get_pair_def)

lemma decorator_invoke_calls_mutable_unchanged:
  assumes kept: "\<forall>xs w. snd (call_operator d x g xs w) = (d, x, g)"
  shows "decorator_invoke_calls_mutable call_operator (decorated d x g) xss w =
     (run_calls (\<lambda>xs w. fst (call_operator d x g xs w)) xss w, decorated d x g)"
proof (induction xss arbitrary: w)
  case Nil
  show ?case by simp
next
  case (Cons xs xss)
  obtain r w' where call: "call_operator d x g xs w = ((r, w'), (d, x, g))"
    using kept by (metis prod.collapse)
  obtain rs w'' where rest:
    "run_calls (\<lambda>xs w. fst (call_operator d x g xs w)) xss w' = (rs, w'')"
    by (cases "run_calls (\<lambda>xs w. fst (call_operator d x g xs w)) xss w'")
  show ?case
    by (simp add: decorator_invoke_call_mutable_decorated call Cons rest)
qed

text \<open>
  C10, in the form the code satisfies. A call of a decorator invocation object hands its decorator
  operation, data and target callable on as \<^verbatim>\<open>const D&\<close>, \<^verbatim>\<open>const T&\<close> and \<^verbatim>\<open>const F&\<close>
  and writes nothing itself: what the object stores after the call is what the one call
  of the decorator operation left. For a decorator operation whose calls leave the
  decorator, the data and the target as they are, the object built by
  \<^verbatim>\<open>decorate(d)(x)(g)\<close> stores \<open>d\<close>, \<open>x\<close> and \<open>g\<close> after any sequence of calls, and every
  call of the sequence is a call of the decorator operation on this same \<open>d\<close>, \<open>x\<close> and
  \<open>g\<close>.
\<close>

theorem decorator_invoke_captured_state_kept:
  assumes kept: "\<forall>xs w. snd (call_operator d x g xs w) = (d, x, g)"
  shows "snd (decorator_invoke_calls_mutable call_operator (decorated d x g) xss w) =
       decorated d x g
   \<and> decorator_invoke_get_decorator
         (snd (decorator_invoke_calls_mutable call_operator (decorated d x g) xss w)) as = d
   \<and> decorator_invoke_get_data
         (snd (decorator_invoke_calls_mutable call_operator (decorated d x g) xss w)) as = x
   \<and> decorator_invoke_base_function
         (snd (decorator_invoke_calls_mutable call_operator (decorated d x g) xss w)) as = g
   \<and> fst (decorator_invoke_calls_mutable call_operator (decorated d x g) xss w) =
       run_calls (\<lambda>xs w. fst (call_operator d x g xs w)) xss w
   \<and> snd (decorator_invoke_call_mutable other_call_operator (decorated d x g) ys v) =
       (case snd (other_call_operator d x g ys v) of (d', x', g') \<Rightarrow> decorated d' x' g')
   \<and> decorator_invoke_body_args T F Ts = Const_lref T # Const_lref F # Ts"
proof -
  have run: "decorator_invoke_calls_mutable call_operator (decorated d x g) xss w =
     (run_calls (\<lambda>xs w. fst (call_operator d x g xs w)) xss w, decorated d x g)"
    using kept by (rule decorator_invoke_calls_mutable_unchanged)
  have receiver: "snd (decorator_invoke_calls_mutable call_operator (decorated d x g) xss w) =
       decorated d x g"
    by (simp add: run)
  have get_decorator: "decorator_invoke_get_decorator
         (snd (decorator_invoke_calls_mutable call_operator (decorated d x g) xss w)) as = d"
    by (simp only: receiver)
      (simp add: decorated_eq decorator_invoke_get_decorator_def decorator_invoke_get_pair_def)
  have get_data: "decorator_invoke_get_data
         (snd (decorator_invoke_calls_mutable call_operator (decorated d x g) xss w)) as = x"
    by (simp only: receiver)
      (simp add: decorated_eq decorator_invoke_get_data_def decorator_invoke_get_pair_def)
  have base_function: "decorator_invoke_base_function
         (snd (decorator_invoke_calls_mutable call_operator (decorated d x g) xss w)) as = g"
    by (simp only: receiver) (simp add: decorated_eq decorator_invoke_base_function_def)
  have results: "fst (decorator_invoke_calls_mutable call_operator (decorated d x g) xss w) =
       run_calls (\<lambda>xs w. fst (call_operator d x g xs w)) xss w"
    by (simp add: run)
  have left: "snd (decorator_invoke_call_mutable other_call_operator (decorated d x g) ys v) =
       (case snd (other_call_operator d x g ys v) of (d', x', g') \<Rightarrow> decorated d' x' g')"
    by (simp add: decorator_invoke_call_mutable_decorated split: prod.split)
  have const_refs: "decorator_invoke_body_args T F Ts = Const_lref T # Const_lref F # Ts"
    by (simp add: decorator_invoke_body_args_def)
  show ?thesis
    by (intro conjI)
      (rule receiver get_decorator get_data base_function results left const_refs)+
qed

text \<open>
  C10 as stated fails for a decorator operation with a mutable member: after one call of
  the object the stored decorator is no longer the one captured, and two calls with the
  same arguments return different results.
\<close>

theorem decorator_invoke_mutable_decorator_changes:
  "decorator_invoke_get_decorator
     (snd (decorator_invoke_call_mutable counting_call (decorated (0::nat) () ()) ([]::unit list) ()))
     ([]::unit list) \<noteq> 0
   \<and> snd (decorator_invoke_call_mutable counting_call (decorated (0::nat) () ()) ([]::unit list) ())
       \<noteq> decorated (0::nat) () ()
   \<and> fst (decorator_invoke_calls_mutable counting_call (decorated (0::nat) () ())
         [[]::unit list, []] ()) = ([0, 1], ())"
  by (simp add: decorator_invoke_call_mutable_def counting_call_def decorated_eq
      decorator_invoke_get_decorator_def decorator_invoke_get_data_def
      decorator_invoke_base_function_def decorator_invoke_get_pair_def)

text \<open>
  The same at the documented logger, a plain value, with the message \<open>m\<close> and the
  target \<^verbatim>\<open>sum_f\<close>, called on \<open>(1, 2)\<close> and then on \<open>(3, 4)\<close>.
\<close>

theorem decorator_invoke_captured_state_kept_witness:
  "snd (decorator_invoke_calls_mutable stateless_call (decorated logger_f ''m'' sum_f)
       [[1, 2], [3, 4]] []) = decorated logger_f ''m'' sum_f
   \<and> fst (decorator_invoke_calls_mutable stateless_call (decorated logger_f ''m'' sum_f)
       [[1, 2], [3, 4]] []) = ([Inr 3, Inr 7], [''m'', ''m''])"
proof -
  have kept: "\<forall>xs w. snd (stateless_call logger_f ''m'' sum_f xs w) = (logger_f, ''m'', sum_f)"
    by (simp add: stateless_call_def)
  note law = decorator_invoke_captured_state_kept
    [where call_operator = stateless_call and d = logger_f and x = "''m''" and g = sum_f
      and xss = "[[1, 2], [3, 4]]" and w = "[]", OF kept]
  from law have receiver: "snd (decorator_invoke_calls_mutable stateless_call
      (decorated logger_f ''m'' sum_f) [[1, 2], [3, 4]] []) = decorated logger_f ''m'' sum_f"
    by (rule conjunct1)
  have "fst (decorator_invoke_calls_mutable stateless_call
      (decorated logger_f ''m'' sum_f) [[1, 2], [3, 4]] []) =
      run_calls (\<lambda>xs w. fst (stateless_call logger_f ''m'' sum_f xs w)) [[1, 2], [3, 4]] []"
    by (rule law [THEN conjunct2, THEN conjunct2, THEN conjunct2, THEN conjunct2,
          THEN conjunct1])
  then have results: "fst (decorator_invoke_calls_mutable stateless_call
      (decorated logger_f ''m'' sum_f) [[1, 2], [3, 4]] []) = ([Inr 3, Inr 7], [''m'', ''m''])"
    by (simp add: stateless_call_def logger_f_def sum_f_def)
  from receiver results show ?thesis by (rule conjI)
qed


end
